theory Spec2Isabelle
  imports Main
begin

section \<open>Data model\<close>

text \<open>
  Expressions of the logic library the planner is written against: an operator and a
  tuple of arguments, compared structurally. A fluent such as \<open>At(C1, SFO)\<close> is
  \<open>Expr ''At'' [Expr ''C1'' [], Expr ''SFO'' []]\<close>; Python's \<open>~e\<close> builds the
  expression with operator \<open>~\<close> and the single argument \<open>e\<close>.
\<close>

datatype expr = Expr (ex_op: string) (ex_args: "expr list")

definition invert :: "expr \<Rightarrow> expr" where
  "invert e = Expr ''~'' [e]"

text \<open>\<open>e.args[0]\<close>, with the empty tuple written out as \<open>None\<close>.\<close>

definition arg0 :: "expr \<Rightarrow> expr option" where
  "arg0 e = (case ex_args e of [] \<Rightarrow> None | x # _ \<Rightarrow> Some x)"

record action =
  name :: string
  args :: "expr list"
  precond_pos :: "expr list"
  precond_neg :: "expr list"
  effect_add :: "expr list"
  effect_rem :: "expr list"

text \<open>The library's constructor \<open>Action(expr, [pos, neg], [add, rem])\<close>.\<close>

definition Action :: "expr \<Rightarrow> expr list \<times> expr list \<Rightarrow> expr list \<times> expr list \<Rightarrow> action" where
  "Action a precond effect =
     \<lparr>name = ex_op a, args = ex_args a,
      precond_pos = fst precond, precond_neg = snd precond,
      effect_add = fst effect, effect_rem = snd effect\<rparr>"

record problem =
  state_map :: "expr list"
  actions_list :: "action list"
  goal :: "expr list"

record fluent_state =
  pos :: "expr list"
  neg :: "expr list"

text \<open>
  Node objects live in two stores, one per class, and are referred to by their address
  (the index in the store). \<open>pgnode\<close> is the base class \<open>PgNode\<close> with its three
  sets; \<open>snode\<close> and \<open>anode\<close> extend it as \<open>PgNode_s\<close> and \<open>PgNode_a\<close> do.
  A Python set of nodes is the list of the addresses of its elements in insertion
  order; no two elements of such a list are equal under the class's \<open>__eq__\<close>.
\<close>

record pgnode =
  parents :: "nat list"
  children :: "nat list"
  mutex :: "nat list"

record snode = pgnode +
  symbol :: expr
  is_pos :: bool

record anode = pgnode +
  action :: action
  prenodes :: "nat list"
  effnodes :: "nat list"
  is_persistent :: bool

record planning_graph =
  problem :: problem
  fs :: fluent_state
  serial :: bool
  all_actions :: "action list"
  s_levels :: "nat list list"
  a_levels :: "nat list list"
  s_heap :: "snode list"
  a_heap :: "anode list"

datatype error = TypeError | IndexError | GraphAlreadyCreated

datatype node = S_node nat | A_node nat

section \<open>Equality, hashing and sets of nodes\<close>

text \<open>
  \<open>PgNode_s.__eq__\<close> compares symbol and polarity, \<open>PgNode_a.__eq__\<close> the action's
  name and arguments; \<open>__hash__\<close> is a function of the same fields. So membership in a
  set, \<open>add\<close>, \<open><=\<close> and \<open>==\<close> on sets all go by these keys.
\<close>

definition s_key :: "snode list \<Rightarrow> nat \<Rightarrow> expr \<times> bool" where
  "s_key h a = (symbol (h ! a), is_pos (h ! a))"

definition action_key :: "action \<Rightarrow> string \<times> expr list" where
  "action_key act = (name act, args act)"

definition a_key :: "anode list \<Rightarrow> nat \<Rightarrow> string \<times> expr list" where
  "a_key h a = action_key (action (h ! a))"

definition py_in :: "(nat \<Rightarrow> 'k) \<Rightarrow> nat \<Rightarrow> nat list \<Rightarrow> bool" where
  "py_in k x xs = list_ex (\<lambda>y. k y = k x) xs"

definition py_add :: "(nat \<Rightarrow> 'k) \<Rightarrow> nat list \<Rightarrow> nat \<Rightarrow> nat list" where
  "py_add k xs x = (if py_in k x xs then xs else xs @ [x])"

definition py_subset :: "(nat \<Rightarrow> 'k) \<Rightarrow> nat list \<Rightarrow> nat list \<Rightarrow> bool" where
  "py_subset k xs ys = list_all (\<lambda>x. py_in k x ys) xs"

definition py_set_eq :: "(nat \<Rightarrow> 'k) \<Rightarrow> nat list \<Rightarrow> nat list \<Rightarrow> bool" where
  "py_set_eq k xs ys = (py_subset k xs ys \<and> py_subset k ys xs)"

section \<open>Node classes\<close>

text \<open>\<open>PgNode_s(symbol, is_pos)\<close>: a fresh object with three empty sets.\<close>

definition PgNode_s :: "expr \<Rightarrow> bool \<Rightarrow> snode list \<Rightarrow> nat \<times> snode list" where
  "PgNode_s s b h =
     (length h, h @ [\<lparr>parents = [], children = [], mutex = [], symbol = s, is_pos = b\<rparr>])"

text \<open>The attribute \<open>literal\<close> of a fact node, fixed at construction.\<close>

definition literal :: "snode \<Rightarrow> expr" where
  "literal n = (if is_pos n then symbol n else invert (symbol n))"

text \<open>
  The loop \<open>for p in ps: n = PgNode_s(p, b); nodes.add(n)\<close>, shared by
  \<open>precond_s_nodes\<close>, \<open>effect_s_nodes\<close>, the initial layer and the goal set.
\<close>

fun s_nodes_loop :: "expr list \<Rightarrow> bool \<Rightarrow> nat list \<Rightarrow> snode list \<Rightarrow> nat list \<times> snode list" where
  "s_nodes_loop [] b nodes h = (nodes, h)"
| "s_nodes_loop (p # ps) b nodes h =
     (let (n, h1) = PgNode_s p b h
      in s_nodes_loop ps b (py_add (s_key h1) nodes n) h1)"

definition precond_s_nodes :: "action \<Rightarrow> snode list \<Rightarrow> nat list \<times> snode list" where
  "precond_s_nodes act h =
     (let (nodes, h1) = s_nodes_loop (precond_pos act) True [] h
      in s_nodes_loop (precond_neg act) False nodes h1)"

definition effect_s_nodes :: "action \<Rightarrow> snode list \<Rightarrow> nat list \<times> snode list" where
  "effect_s_nodes act h =
     (let (nodes, h1) = s_nodes_loop (effect_add act) True [] h
      in s_nodes_loop (effect_rem act) False nodes h1)"

definition PgNode_a :: "action \<Rightarrow> snode list \<Rightarrow> anode list \<Rightarrow> nat \<times> snode list \<times> anode list" where
  "PgNode_a act sh ah =
     (let (pre, sh1) = precond_s_nodes act sh;
          (eff, sh2) = effect_s_nodes act sh1
      in (length ah, sh2,
          ah @ [\<lparr>parents = [], children = [], mutex = [], action = act,
                 prenodes = pre, effnodes = eff,
                 is_persistent = py_set_eq (s_key sh2) pre eff\<rparr>]))"

text \<open>\<open>PgNode.is_mutex\<close>: \<open>other in self.mutex\<close>, for the nodes of one store.\<close>

definition is_mutex :: "(('z pgnode_scheme) list \<Rightarrow> nat \<Rightarrow> 'k) \<Rightarrow> ('z pgnode_scheme) list \<Rightarrow> nat \<Rightarrow> nat \<Rightarrow> bool" where
  "is_mutex k h self other = py_in (k h) other (mutex (h ! self))"

text \<open>The two insertions of \<open>mutexify\<close>, one after the other, in one store.\<close>

definition mutex_add :: "(('z pgnode_scheme) list \<Rightarrow> nat \<Rightarrow> 'k) \<Rightarrow> nat \<Rightarrow> nat \<Rightarrow> ('z pgnode_scheme) list \<Rightarrow> ('z pgnode_scheme) list" where
  "mutex_add k a b h = h[a := (h ! a)\<lparr>mutex := py_add (k h) (mutex (h ! a)) b\<rparr>]"

definition mutexify_in :: "(('z pgnode_scheme) list \<Rightarrow> nat \<Rightarrow> 'k) \<Rightarrow> nat \<Rightarrow> nat \<Rightarrow> ('z pgnode_scheme) list \<Rightarrow> ('z pgnode_scheme) list" where
  "mutexify_in k node1 node2 h = mutex_add k node2 node1 (mutex_add k node1 node2 h)"

text \<open>\<open>mutexify\<close> on two nodes of any class: the type test, then the insertions.\<close>

fun mutexify :: "node \<Rightarrow> node \<Rightarrow> planning_graph \<Rightarrow> error + planning_graph" where
  "mutexify (S_node a) (S_node b) g = Inr (g\<lparr>s_heap := mutexify_in s_key a b (s_heap g)\<rparr>)"
| "mutexify (A_node a) (A_node b) g = Inr (g\<lparr>a_heap := mutexify_in a_key a b (a_heap g)\<rparr>)"
| "mutexify _ _ g = Inl TypeError"

text \<open>\<open>node1.is_mutex(node2)\<close> on two nodes of any class.\<close>

fun node_is_mutex :: "planning_graph \<Rightarrow> node \<Rightarrow> node \<Rightarrow> bool" where
  "node_is_mutex g (S_node a) (S_node b) = is_mutex s_key (s_heap g) a b"
| "node_is_mutex g (A_node a) (A_node b) = is_mutex a_key (a_heap g) a b"
| "node_is_mutex g _ _ = False"

section \<open>The planning graph\<close>

text \<open>
  \<open>get_expressions\<close>: the signed effects (default) or the signed preconditions of an
  action, the entries of the negative lists inverted. The source selects by the strings
  \<open>'effect'\<close> and \<open>'cond'\<close> and is called with these two only.
\<close>

datatype cond_or_effect = Effect | Cond

fun get_expressions :: "action \<Rightarrow> cond_or_effect \<Rightarrow> expr list" where
  "get_expressions act Effect = effect_add act @ map invert (effect_rem act)"
| "get_expressions act Cond = precond_pos act @ map invert (precond_neg act)"

fun noop_actions :: "expr list \<Rightarrow> action list" where
  "noop_actions [] = []"
| "noop_actions (fluent # literal_list) =
     Action (Expr ''Noop_pos'' [fluent]) ([fluent], []) ([fluent], [])
     # Action (Expr ''Noop_neg'' [fluent]) ([], [fluent]) ([], [fluent])
     # noop_actions literal_list"

text \<open>
  \<open>add_action_level\<close>: one candidate node per action of \<open>all_actions\<close>, in list order;
  a candidate whose \<open>prenodes\<close> are a subset of the fact layer gets \<open>parents\<close> set to its
  own \<open>prenodes\<close> and is added to the new layer. The level is a natural number here, so
  the test \<open>level < 0\<close> of the source has no branch.
\<close>

fun add_action_loop :: "action list \<Rightarrow> nat list \<Rightarrow> nat list \<Rightarrow> snode list \<Rightarrow> anode list
    \<Rightarrow> nat list \<times> snode list \<times> anode list" where
  "add_action_loop [] s_level new_actions sh ah = (new_actions, sh, ah)"
| "add_action_loop (act # acts) s_level new_actions sh ah =
     (let (n, sh1, ah1) = PgNode_a act sh ah
      in if py_subset (s_key sh1) (prenodes (ah1 ! n)) s_level
         then let ah2 = ah1[n := (ah1 ! n)\<lparr>parents := prenodes (ah1 ! n)\<rparr>]
              in add_action_loop acts s_level (py_add (a_key ah2) new_actions n) sh1 ah2
         else add_action_loop acts s_level new_actions sh1 ah1)"

definition add_action_level :: "planning_graph \<Rightarrow> nat \<Rightarrow> planning_graph" where
  "add_action_level g level =
     (let (new_actions, sh, ah) =
            add_action_loop (all_actions g) (s_levels g ! level) [] (s_heap g) (a_heap g)
      in g\<lparr>a_levels := a_levels g @ [new_actions], s_heap := sh, a_heap := ah\<rparr>)"

text \<open>
  \<open>add_literal_level\<close>, first pair of loops: every effect node of every action node of
  the previous action layer becomes a child of that action node and is added to the new
  fact layer.
\<close>

fun effect_loop :: "snode list \<Rightarrow> nat \<Rightarrow> nat list \<Rightarrow> nat list \<times> anode list \<Rightarrow> nat list \<times> anode list" where
  "effect_loop sh action_node [] (new_literals, ah) = (new_literals, ah)"
| "effect_loop sh action_node (effect_node # rest) (new_literals, ah) =
     effect_loop sh action_node rest
       (py_add (s_key sh) new_literals effect_node,
        ah[action_node := (ah ! action_node)
             \<lparr>children := py_add (s_key sh) (children (ah ! action_node)) effect_node\<rparr>])"

fun children_loop :: "snode list \<Rightarrow> nat list \<Rightarrow> nat list \<times> anode list \<Rightarrow> nat list \<times> anode list" where
  "children_loop sh [] (new_literals, ah) = (new_literals, ah)"
| "children_loop sh (action_node # rest) (new_literals, ah) =
     children_loop sh rest
       (effect_loop sh action_node (effnodes (ah ! action_node)) (new_literals, ah))"

text \<open>
  Second pair of loops: every action node of the previous layer whose \<open>effnodes\<close> hold the
  literal becomes a parent of the literal's node in the new layer.
\<close>

fun parent_loop :: "anode list \<Rightarrow> nat \<Rightarrow> nat list \<Rightarrow> snode list \<Rightarrow> snode list" where
  "parent_loop ah node [] sh = sh"
| "parent_loop ah node (action_node # rest) sh =
     parent_loop ah node rest
       (if py_in (s_key sh) node (effnodes (ah ! action_node))
        then sh[node := (sh ! node)\<lparr>parents := py_add (a_key ah) (parents (sh ! node)) action_node\<rparr>]
        else sh)"

fun parents_loop :: "anode list \<Rightarrow> nat list \<Rightarrow> nat list \<Rightarrow> snode list \<Rightarrow> snode list" where
  "parents_loop ah a_level [] sh = sh"
| "parents_loop ah a_level (node # rest) sh =
     parents_loop ah a_level rest (parent_loop ah node a_level sh)"

definition add_literal_level :: "planning_graph \<Rightarrow> nat \<Rightarrow> planning_graph" where
  "add_literal_level g level =
     (let a_level = a_levels g ! (level - 1);
          (new_literals, ah) = children_loop (s_heap g) a_level ([], a_heap g);
          sh = parents_loop ah a_level new_literals (s_heap g)
      in g\<lparr>s_levels := s_levels g @ [new_literals], s_heap := sh, a_heap := ah\<rparr>)"

text \<open>
  The double loop of \<open>update_a_mutex\<close> and \<open>update_s_mutex\<close>:
  \<open>for i, n1 in enumerate(nodelist[:-1]): for n2 in nodelist[i + 1:]: body\<close>.
\<close>

definition for_pairs :: "(nat \<Rightarrow> nat \<Rightarrow> 's \<Rightarrow> 's) \<Rightarrow> nat list \<Rightarrow> 's \<Rightarrow> 's" where
  "for_pairs body nodelist =
     fold (\<lambda>(i, n1). fold (body n1) (drop (i + 1) nodelist)) (enumerate 0 (butlast nodelist))"

definition serialize_actions :: "planning_graph \<Rightarrow> nat \<Rightarrow> nat \<Rightarrow> bool" where
  "serialize_actions g node_a1 node_a2 =
     (if \<not> serial g then False
      else if is_persistent (a_heap g ! node_a1) \<or> is_persistent (a_heap g ! node_a2) then False
      else True)"

text \<open>
  The test inside the loops of \<open>inconsistent_effects_mutex\<close> and \<open>interference_mutex\<close>:
  one expression is a negation, the other is not, and the negated argument equals the
  other. (A negation always has its one argument; \<open>args[0]\<close> of an empty tuple, an
  IndexError in Python, compares unequal here.)
\<close>

definition negates :: "expr \<Rightarrow> expr \<Rightarrow> bool" where
  "negates e1 e2 =
     ((ex_op e1 = ''~'' \<and> ex_op e2 \<noteq> ''~'' \<and> arg0 e1 = Some e2) \<or>
      (ex_op e1 \<noteq> ''~'' \<and> ex_op e2 = ''~'' \<and> Some e1 = arg0 e2))"

definition effects_of :: "planning_graph \<Rightarrow> nat \<Rightarrow> expr list" where
  "effects_of g n =
     get_expressions (action (a_heap g ! n)) Effect
     @ map (\<lambda>child. literal (s_heap g ! child)) (children (a_heap g ! n))"

definition preconds_of :: "planning_graph \<Rightarrow> nat \<Rightarrow> expr list" where
  "preconds_of g n =
     get_expressions (action (a_heap g ! n)) Cond
     @ map (\<lambda>parent. literal (s_heap g ! parent)) (parents (a_heap g ! n))"

definition inconsistent_effects_mutex :: "planning_graph \<Rightarrow> nat \<Rightarrow> nat \<Rightarrow> bool" where
  "inconsistent_effects_mutex g node_a1 node_a2 =
     list_ex (\<lambda>effect. list_ex (\<lambda>effect2. negates effect effect2) (effects_of g node_a2))
       (effects_of g node_a1)"

definition interference_mutex :: "planning_graph \<Rightarrow> nat \<Rightarrow> nat \<Rightarrow> bool" where
  "interference_mutex g node_a1 node_a2 =
     (list_ex (\<lambda>precond. list_ex (\<lambda>effect. negates precond effect) (effects_of g node_a2))
        (preconds_of g node_a1) \<or>
      list_ex (\<lambda>precond. list_ex (\<lambda>effect. negates precond effect) (effects_of g node_a1))
        (preconds_of g node_a2))"

definition competing_needs_mutex :: "planning_graph \<Rightarrow> nat \<Rightarrow> nat \<Rightarrow> bool" where
  "competing_needs_mutex g node_a1 node_a2 =
     list_ex (\<lambda>precond. list_ex (\<lambda>precond2. is_mutex s_key (s_heap g) precond precond2)
                (parents (a_heap g ! node_a2)))
       (parents (a_heap g ! node_a1))"

text \<open>
  In both update loops \<open>mutexify\<close> gets two nodes of one class, so its type test passes
  and the two insertions are what is left.
\<close>

definition a_mutex_body :: "nat \<Rightarrow> nat \<Rightarrow> planning_graph \<Rightarrow> planning_graph" where
  "a_mutex_body n1 n2 g =
     (if serialize_actions g n1 n2 \<or> inconsistent_effects_mutex g n1 n2 \<or>
         interference_mutex g n1 n2 \<or> competing_needs_mutex g n1 n2
      then g\<lparr>a_heap := mutexify_in a_key n1 n2 (a_heap g)\<rparr> else g)"

definition update_a_mutex :: "planning_graph \<Rightarrow> nat list \<Rightarrow> planning_graph" where
  "update_a_mutex g nodeset = for_pairs a_mutex_body nodeset g"

definition negation_mutex :: "planning_graph \<Rightarrow> nat \<Rightarrow> nat \<Rightarrow> bool" where
  "negation_mutex g node_s1 node_s2 =
     (let opposite_boolean =
            ((is_pos (s_heap g ! node_s1) \<and> \<not> is_pos (s_heap g ! node_s2)) \<or>
             (\<not> is_pos (s_heap g ! node_s1) \<and> is_pos (s_heap g ! node_s2)))
      in symbol (s_heap g ! node_s1) = symbol (s_heap g ! node_s2) \<and> opposite_boolean)"

definition inconsistent_support_mutex :: "planning_graph \<Rightarrow> nat \<Rightarrow> nat \<Rightarrow> bool" where
  "inconsistent_support_mutex g node_s1 node_s2 =
     (let indicator =
            list_all (\<lambda>parent. list_all (\<lambda>parent2. is_mutex a_key (a_heap g) parent parent2)
                        (parents (s_heap g ! node_s2)))
              (parents (s_heap g ! node_s1))
      in is_mutex s_key (s_heap g) node_s1 node_s2 \<or> indicator)"

definition s_mutex_body :: "nat \<Rightarrow> nat \<Rightarrow> planning_graph \<Rightarrow> planning_graph" where
  "s_mutex_body n1 n2 g =
     (if negation_mutex g n1 n2 \<or> inconsistent_support_mutex g n1 n2
      then g\<lparr>s_heap := mutexify_in s_key n1 n2 (s_heap g)\<rparr> else g)"

definition update_s_mutex :: "planning_graph \<Rightarrow> nat list \<Rightarrow> planning_graph" where
  "update_s_mutex g nodeset = for_pairs s_mutex_body nodeset g"

text \<open>One round of the loop of \<open>create_graph\<close>, up to the test for the fixed point.\<close>

definition graph_step :: "planning_graph \<Rightarrow> nat \<Rightarrow> planning_graph" where
  "graph_step g level =
     (let g1 = add_action_level g level;
          g2 = update_a_mutex g1 (a_levels g1 ! level);
          g3 = add_literal_level g2 (level + 1)
      in update_s_mutex g3 (s_levels g3 ! (level + 1)))"

definition leveled_test :: "planning_graph \<Rightarrow> nat \<Rightarrow> bool" where
  "leveled_test g level =
     py_set_eq (s_key (s_heap g)) (s_levels g ! level) (s_levels g ! (level - 1))"

text \<open>
  The loop \<open>while not leveled\<close>. Nothing in it bounds the number of rounds, so the result
  is optional: \<open>None\<close> is a loop that never ends.
\<close>

partial_function (option) create_loop :: "planning_graph \<Rightarrow> nat \<Rightarrow> planning_graph option" where
  "create_loop g level =
     (let g' = graph_step g level
      in if leveled_test g' (level + 1) then Some g' else create_loop g' (level + 1))"

declare create_loop.simps [code]

definition create_graph :: "planning_graph \<Rightarrow> (error + planning_graph) option" where
  "create_graph g =
     (if s_levels g \<noteq> [] \<or> a_levels g \<noteq> [] then Some (Inl GraphAlreadyCreated)
      else let (s0, sh1) = s_nodes_loop (pos (fs g)) True [] (s_heap g);
               (s0', sh2) = s_nodes_loop (neg (fs g)) False s0 sh1
           in map_option Inr (create_loop (g\<lparr>s_levels := [s0'], s_heap := sh2\<rparr>) 0))"

text \<open>
  Modelled from the spec: \<open>decode_state\<close> of the state codec, a collaborator outside
  the sources. Position \<open>i\<close> of the state key says whether fluent \<open>i\<close> of the fluent
  order holds (\<open>T\<close>) or not; a key longer than the fluent order has no fluent to
  index.
\<close>

fun decode_state :: "string \<Rightarrow> expr list \<Rightarrow> error + fluent_state" where
  "decode_state [] fluent_map = Inr \<lparr>pos = [], neg = []\<rparr>"
| "decode_state (c # state) [] = Inl IndexError"
| "decode_state (c # state) (f # fluent_map) =
     (case decode_state state fluent_map of
        Inl e \<Rightarrow> Inl e
      | Inr st \<Rightarrow> Inr (if c = CHR ''T'' then st\<lparr>pos := f # pos st\<rparr> else st\<lparr>neg := f # neg st\<rparr>))"

text \<open>The constructor \<open>PlanningGraph(problem, state, serial_planning)\<close>.\<close>

definition PlanningGraph :: "problem \<Rightarrow> string \<Rightarrow> bool \<Rightarrow> (error + planning_graph) option" where
  "PlanningGraph p state serial_planning =
     (case decode_state state (state_map p) of
        Inl e \<Rightarrow> Some (Inl e)
      | Inr f \<Rightarrow>
          create_graph
            \<lparr>problem = p, fs = f, serial = serial_planning,
             all_actions = actions_list p @ noop_actions (state_map p),
             s_levels = [], a_levels = [], s_heap = [], a_heap = []\<rparr>)"

section \<open>The level-sum heuristic\<close>

text \<open>\<open>goal_levels[goal] = index\<close> on a dictionary keyed by fact nodes.\<close>

fun dict_set :: "(nat \<Rightarrow> 'k) \<Rightarrow> (nat \<times> int) list \<Rightarrow> nat \<Rightarrow> int \<Rightarrow> (nat \<times> int) list" where
  "dict_set k [] x v = [(x, v)]"
| "dict_set k ((y, w) # d) x v = (if k y = k x then (y, v) # d else (y, w) # dict_set k d x v)"

fun levelsum_loop :: "snode list \<Rightarrow> int \<Rightarrow> nat list list \<Rightarrow> nat list \<Rightarrow> (nat \<times> int) list
    \<Rightarrow> (nat \<times> int) list" where
  "levelsum_loop sh index [] unfound_goals goal_levels = goal_levels"
| "levelsum_loop sh index (level # rest) unfound_goals goal_levels =
     (let found_goals = filter (\<lambda>goal. py_in (s_key sh) goal level) unfound_goals;
          goal_levels' = fold (\<lambda>goal d. dict_set (s_key sh) d goal index) found_goals goal_levels;
          unfound_goals' = filter (\<lambda>goal. \<not> py_in (s_key sh) goal found_goals) unfound_goals
      in if unfound_goals' = [] then goal_levels'
         else levelsum_loop sh (index + 1) rest unfound_goals' goal_levels')"

definition h_levelsum :: "planning_graph \<Rightarrow> int" where
  "h_levelsum g =
     (let (unfound_goals, sh) = s_nodes_loop (goal (problem g)) True [] (s_heap g);
          goal_levels = levelsum_loop sh 0 (s_levels g) unfound_goals []
      in fold (\<lambda>(goal, l) level_sum. level_sum + l) goal_levels 0)"

section \<open>Vocabulary of the properties\<close>

text \<open>The class of a node reference, and whether it refers to an object of its store.\<close>

fun same_kind :: "node \<Rightarrow> node \<Rightarrow> bool" where
  "same_kind (S_node a) (S_node b) = True"
| "same_kind (A_node a) (A_node b) = True"
| "same_kind _ _ = False"

fun allocated :: "planning_graph \<Rightarrow> node \<Rightarrow> bool" where
  "allocated g (S_node a) = (a < length (s_heap g))"
| "allocated g (A_node a) = (a < length (a_heap g))"

text \<open>Python's \<open>==\<close> on two nodes: the same class and the same key.\<close>

fun node_eq :: "planning_graph \<Rightarrow> node \<Rightarrow> node \<Rightarrow> bool" where
  "node_eq g (S_node a) (S_node b) = (s_key (s_heap g) a = s_key (s_heap g) b)"
| "node_eq g (A_node a) (A_node b) = (a_key (a_heap g) a = a_key (a_heap g) b)"
| "node_eq g _ _ = False"

text \<open>
  The literals (symbol and polarity) of the nodes of a set, and the signed preconditions
  and effects of an action as such literals.
\<close>

definition lits :: "snode list \<Rightarrow> nat list \<Rightarrow> (expr \<times> bool) set" where
  "lits h xs = s_key h ` set xs"

definition pre_lits :: "action \<Rightarrow> (expr \<times> bool) set" where
  "pre_lits act = (\<lambda>p. (p, True)) ` set (precond_pos act) \<union> (\<lambda>p. (p, False)) ` set (precond_neg act)"

definition eff_lits :: "action \<Rightarrow> (expr \<times> bool) set" where
  "eff_lits act = (\<lambda>p. (p, True)) ` set (effect_add act) \<union> (\<lambda>p. (p, False)) ` set (effect_rem act)"

section \<open>Example graphs and problems\<close>

text \<open>
  Three fact nodes of a hand-built graph, the first two in different layers; the first
  and the third are already mutex.
\<close>

definition three_nodes :: planning_graph where
  "three_nodes =
     \<lparr>problem = \<lparr>state_map = [], actions_list = [], goal = []\<rparr>, fs = \<lparr>pos = [], neg = []\<rparr>,
      serial = True, all_actions = [], s_levels = [[0, 2], [1]], a_levels = [[]],
      s_heap = [\<lparr>parents = [], children = [], mutex = [2], symbol = Expr ''X'' [], is_pos = True\<rparr>,
                \<lparr>parents = [], children = [], mutex = [], symbol = Expr ''Y'' [], is_pos = True\<rparr>,
                \<lparr>parents = [], children = [], mutex = [0], symbol = Expr ''Z'' [], is_pos = True\<rparr>],
      a_heap = []\<rparr>"


section \<open>Sets of nodes\<close>

lemma py_in_iff: "py_in k x xs \<longleftrightarrow> k x \<in> k ` set xs"
  unfolding py_in_def list_ex_iff image_iff by metis

lemma py_in_add_same: "py_in k x (py_add k xs x)"
  by (auto simp: py_add_def py_in_iff)

lemma py_in_add_mono: "py_in k y xs \<Longrightarrow> py_in k y (py_add k xs x)"
  by (auto simp: py_add_def py_in_iff)

lemma keys_py_add: "k ` set (py_add k xs x) = insert (k x) (k ` set xs)"
  by (auto simp: py_add_def py_in_iff)

lemma set_py_add: "set (py_add k xs x) \<subseteq> insert x (set xs)"
  by (auto simp: py_add_def)

lemma set_py_add_mono: "set xs \<subseteq> set (py_add k xs x)"
  by (auto simp: py_add_def)

lemma py_subset_iff: "py_subset k xs ys \<longleftrightarrow> k ` set xs \<subseteq> k ` set ys"
  by (auto simp: py_subset_def list_all_iff py_in_iff)

lemma py_set_eq_iff: "py_set_eq k xs ys \<longleftrightarrow> k ` set xs = k ` set ys"
  by (auto simp: py_set_eq_def py_subset_iff)

section \<open>Updates of one field of one object\<close>

lemma nth_update_field:
  assumes "\<And>n. f (g n) = f n"
  shows "f (h[a := g (h ! a)] ! x) = f (h ! x)"
proof (cases "a < length h")
  case True
  then show ?thesis by (cases "x = a") (simp_all add: assms)
next
  case False
  then have "h[a := g (h ! a)] = h" by (simp add: list_update_beyond)
  then show ?thesis by simp
qed

lemma s_key_upd_mutex: "s_key (h[a := (h ! a)\<lparr>mutex := m\<rparr>]) = s_key h"
  by (rule ext) (simp add: s_key_def nth_update_field [where g = "\<lambda>n. n\<lparr>mutex := m\<rparr>"])

lemma s_key_upd_parents: "s_key (h[a := (h ! a)\<lparr>parents := m\<rparr>]) = s_key h"
  by (rule ext) (simp add: s_key_def nth_update_field [where g = "\<lambda>n. n\<lparr>parents := m\<rparr>"])

lemma a_key_upd_mutex: "a_key (h[a := (h ! a)\<lparr>mutex := m\<rparr>]) = a_key h"
  by (rule ext) (simp add: a_key_def nth_update_field [where g = "\<lambda>n. n\<lparr>mutex := m\<rparr>"])

lemma a_key_upd_parents: "a_key (h[a := (h ! a)\<lparr>parents := m\<rparr>]) = a_key h"
  by (rule ext) (simp add: a_key_def nth_update_field [where g = "\<lambda>n. n\<lparr>parents := m\<rparr>"])

lemma a_key_upd_children: "a_key (h[a := (h ! a)\<lparr>children := m\<rparr>]) = a_key h"
  by (rule ext) (simp add: a_key_def nth_update_field [where g = "\<lambda>n. n\<lparr>children := m\<rparr>"])

section \<open>mutexify\<close>

lemma s_key_mutex_add: "s_key (mutex_add k a b h) = s_key h"
  by (simp add: mutex_add_def s_key_upd_mutex)

lemma a_key_mutex_add: "a_key (mutex_add k a b h) = a_key h"
  by (simp add: mutex_add_def a_key_upd_mutex)

lemma length_mutex_add: "length (mutex_add k a b h) = length h"
  by (simp add: mutex_add_def)

lemma is_mutex_mutex_add_same:
  assumes "k (mutex_add k a b h) = k h" and "a < length h"
  shows "is_mutex k (mutex_add k a b h) a b"
  using assms(2) unfolding is_mutex_def assms(1)
  by (simp add: mutex_add_def py_in_add_same)

lemma is_mutex_mutex_add_mono:
  assumes "k (mutex_add k a b h) = k h" and "is_mutex k h x y"
  shows "is_mutex k (mutex_add k a b h) x y"
  using assms(2) unfolding is_mutex_def assms(1)
  by (cases "a < length h"; cases "x = a")
     (auto simp: mutex_add_def py_in_add_mono nth_list_update list_update_beyond)

lemma s_key_mutexify_in: "s_key (mutexify_in k a b h) = s_key h"
  by (simp add: mutexify_in_def s_key_mutex_add)

lemma a_key_mutexify_in: "a_key (mutexify_in k a b h) = a_key h"
  by (simp add: mutexify_in_def a_key_mutex_add)

lemma length_mutexify_in: "length (mutexify_in k a b h) = length h"
  by (simp add: mutexify_in_def length_mutex_add)

lemma is_mutex_mutexify_in:
  assumes stable: "\<And>a b h. k (mutex_add k a b h) = k h"
    and "a < length h" and "b < length h"
  shows "is_mutex k (mutexify_in k a b h) a b \<and> is_mutex k (mutexify_in k a b h) b a"
  unfolding mutexify_in_def
  using assms(2,3)
  by (simp add: is_mutex_mutex_add_same is_mutex_mutex_add_mono stable length_mutex_add)

lemma is_mutex_mutexify_in_mono:
  assumes stable: "\<And>a b h. k (mutex_add k a b h) = k h"
    and "is_mutex k h x y"
  shows "is_mutex k (mutexify_in k a b h) x y"
  unfolding mutexify_in_def
  using assms(2) by (simp add: is_mutex_mutex_add_mono stable)

lemma py_in_py_add_iff: "py_in k y (py_add k xs x) \<longleftrightarrow> py_in k y xs \<or> k y = k x"
  unfolding py_in_iff keys_py_add by auto

lemma is_mutex_mutex_add_iff:
  assumes "k (mutex_add k a b h) = k h" and "x < length h"
  shows "is_mutex k (mutex_add k a b h) x y \<longleftrightarrow> is_mutex k h x y \<or> (x = a \<and> k h y = k h b)"
  using assms(2) unfolding is_mutex_def assms(1)
  by (cases "x = a") (simp_all add: mutex_add_def py_in_py_add_iff)

lemma is_mutex_mutexify_in_iff:
  assumes stable: "\<And>a b h. k (mutex_add k a b h) = k h" and "x < length h"
  shows "is_mutex k (mutexify_in k a b h) x y \<longleftrightarrow>
         is_mutex k h x y \<or> (x = a \<and> k h y = k h b) \<or> (x = b \<and> k h y = k h a)"
  unfolding mutexify_in_def
  using assms(2)
  by (auto simp: is_mutex_mutex_add_iff stable length_mutex_add)

lemma nth_mutex_add_parents: "parents (mutex_add k a b h ! x) = parents (h ! x)"
  unfolding mutex_add_def
  by (rule nth_update_field [where g = "\<lambda>n. n\<lparr>mutex := py_add (k h) (mutex (h ! a)) b\<rparr>"]) simp

lemma nth_mutex_add_children: "children (mutex_add k a b h ! x) = children (h ! x)"
  unfolding mutex_add_def
  by (rule nth_update_field [where g = "\<lambda>n. n\<lparr>mutex := py_add (k h) (mutex (h ! a)) b\<rparr>"]) simp

lemma nth_mutexify_in_parents: "parents (mutexify_in k a b h ! x) = parents (h ! x)"
  by (simp add: mutexify_in_def nth_mutex_add_parents)

lemma nth_mutexify_in_children: "children (mutexify_in k a b h ! x) = children (h ! x)"
  by (simp add: mutexify_in_def nth_mutex_add_children)

lemma mutexify_error_iff: "(\<exists>e. mutexify n1 n2 g = Inl e) \<longleftrightarrow> \<not> same_kind n1 n2"
  by (cases n1; cases n2) simp_all

lemma mutexify_type_error: "mutexify n1 n2 g = Inl TypeError \<longleftrightarrow> \<not> same_kind n1 n2"
  by (cases n1; cases n2) simp_all

lemma mutexify_s_relation:
  assumes "allocated g x"
  shows "node_is_mutex (g\<lparr>s_heap := mutexify_in s_key a b (s_heap g)\<rparr>) x y \<longleftrightarrow>
         node_is_mutex g x y \<or> (x = S_node a \<and> node_eq g y (S_node b)) \<or>
         (x = S_node b \<and> node_eq g y (S_node a))"
proof (cases x; cases y)
  fix c d
  assume xy: "x = S_node c" "y = S_node d"
  with assms have "c < length (s_heap g)" by simp
  then show ?thesis
    using is_mutex_mutexify_in_iff [of s_key c "s_heap g" a b d] xy
    by (simp add: s_key_mutex_add)
qed simp_all

lemma mutexify_a_relation:
  assumes "allocated g x"
  shows "node_is_mutex (g\<lparr>a_heap := mutexify_in a_key a b (a_heap g)\<rparr>) x y \<longleftrightarrow>
         node_is_mutex g x y \<or> (x = A_node a \<and> node_eq g y (A_node b)) \<or>
         (x = A_node b \<and> node_eq g y (A_node a))"
proof (cases x; cases y)
  fix c d
  assume xy: "x = A_node c" "y = A_node d"
  with assms have "c < length (a_heap g)" by simp
  then show ?thesis
    using is_mutex_mutexify_in_iff [of a_key c "a_heap g" a b d] xy
    by (simp add: a_key_mutex_add)
qed simp_all

lemma mutexify_same_kind:
  assumes "same_kind n1 n2"
  shows "\<exists>g'. mutexify n1 n2 g = Inr g' \<and>
           s_levels g' = s_levels g \<and> a_levels g' = a_levels g \<and>
           length (s_heap g') = length (s_heap g) \<and> length (a_heap g') = length (a_heap g) \<and>
           (\<forall>x y. node_eq g' x y = node_eq g x y) \<and>
           (\<forall>x y. allocated g x \<longrightarrow>
              (node_is_mutex g' x y \<longleftrightarrow>
                 node_is_mutex g x y \<or> (x = n1 \<and> node_eq g y n2) \<or> (x = n2 \<and> node_eq g y n1)))"
proof (cases n1; cases n2)
  fix a b
  assume n: "n1 = S_node a" "n2 = S_node b"
  let ?g = "g\<lparr>s_heap := mutexify_in s_key a b (s_heap g)\<rparr>"
  have eq: "node_eq ?g x y = node_eq g x y" for x y
    by (cases x; cases y) (simp_all add: s_key_mutexify_in)
  show ?thesis
    using n eq mutexify_s_relation [of g _ a b]
    by (simp add: length_mutexify_in)
next
  fix a b
  assume n: "n1 = A_node a" "n2 = A_node b"
  let ?g = "g\<lparr>a_heap := mutexify_in a_key a b (a_heap g)\<rparr>"
  have eq: "node_eq ?g x y = node_eq g x y" for x y
    by (cases x; cases y) (simp_all add: a_key_mutexify_in)
  show ?thesis
    using n eq mutexify_a_relation [of g _ a b]
    by (simp add: length_mutexify_in)
qed (use assms in simp_all)

text \<open>
  C10. \<open>mutexify\<close> fails, and then with the type error, exactly when its two nodes are
  of different classes. For two nodes of one class it succeeds and is the symmetric
  insertion: the layers, the two stores' sizes and the nodes' equality are as before, and
  an object \<open>x\<close> has \<open>y\<close> in its mutex set afterwards exactly when it had it before, or
  \<open>x\<close> is the first node and \<open>y\<close> equals the second, or \<open>x\<close> is the second and \<open>y\<close>
  equals the first. So nothing is dropped from any mutex set and nothing else is added.
  Neither a common layer nor distinctness is asked for: this holds for any two nodes of
  one class, also for one object paired with itself.
\<close>

theorem mutexify_type_error_iff:
  "((\<exists>e. mutexify n1 n2 g = Inl e) \<longleftrightarrow> \<not> same_kind n1 n2) \<and>
   (mutexify n1 n2 g = Inl TypeError \<longleftrightarrow> \<not> same_kind n1 n2) \<and>
   (same_kind n1 n2 \<longrightarrow>
      (\<exists>g'. mutexify n1 n2 g = Inr g' \<and>
         s_levels g' = s_levels g \<and> a_levels g' = a_levels g \<and>
         length (s_heap g') = length (s_heap g) \<and> length (a_heap g') = length (a_heap g) \<and>
         (\<forall>x y. node_eq g' x y = node_eq g x y) \<and>
         (\<forall>x y. allocated g x \<longrightarrow>
            (node_is_mutex g' x y \<longleftrightarrow>
               node_is_mutex g x y \<or> (x = n1 \<and> node_eq g y n2) \<or> (x = n2 \<and> node_eq g y n1)))))"
  using mutexify_error_iff [of n1 n2 g] mutexify_type_error [of n1 n2 g]
    mutexify_same_kind [of n1 n2 g]
  by blast

text \<open>
  On \<open>three_nodes\<close>, where node 0 already has node 2 in its mutex set: pairing node 0 with
  node 1 of another layer keeps node 2 and adds node 1; pairing node 0 with itself adds
  it to its own set.
\<close>

theorem mutexify_type_error_iff_witness:
  "same_kind (S_node 0) (S_node 1) \<and> allocated three_nodes (S_node 0) \<and>
   (\<exists>g'. mutexify (S_node 0) (S_node 1) three_nodes = Inr g' \<and>
      node_is_mutex g' (S_node 0) (S_node 2) \<and> node_is_mutex g' (S_node 0) (S_node 1) \<and>
      node_is_mutex g' (S_node 1) (S_node 0) \<and> \<not> node_is_mutex g' (S_node 1) (S_node 2) \<and>
      map mutex (s_heap g') = [[2, 1], [0], [0]]) \<and>
   (\<exists>g'. mutexify (S_node 0) (S_node 0) three_nodes = Inr g' \<and>
      node_is_mutex g' (S_node 0) (S_node 0) \<and> node_is_mutex g' (S_node 0) (S_node 2) \<and>
      map mutex (s_heap g') = [[2, 0], [], [0]])"
proof -
  have k: "s_key (s_heap three_nodes) 0 \<noteq> s_key (s_heap three_nodes) 1"
    "s_key (s_heap three_nodes) 0 \<noteq> s_key (s_heap three_nodes) 2"
    "s_key (s_heap three_nodes) 1 \<noteq> s_key (s_heap three_nodes) 2"
    by (simp_all add: three_nodes_def s_key_def)
  have m: "node_is_mutex three_nodes (S_node 0) (S_node 2)"
    "\<not> node_is_mutex three_nodes (S_node 1) (S_node 2)"
    by (simp_all add: three_nodes_def is_mutex_def py_in_def s_key_def)
  have a: "allocated three_nodes (S_node 0)" "allocated three_nodes (S_node 1)"
    by (simp_all add: three_nodes_def)
  have e1: "map mutex (s_heap (g\<lparr>s_heap := mutexify_in s_key 0 1 (s_heap three_nodes)\<rparr>)) = [[2, 1], [0], [0]]"
    for g :: planning_graph
    by (simp add: three_nodes_def mutexify_in_def mutex_add_def py_add_def py_in_def s_key_def)
  have e2: "map mutex (s_heap (g\<lparr>s_heap := mutexify_in s_key 0 0 (s_heap three_nodes)\<rparr>)) = [[2, 0], [], [0]]"
    for g :: planning_graph
    by (simp add: three_nodes_def mutexify_in_def mutex_add_def py_add_def py_in_def s_key_def)
  from mutexify_type_error_iff [of "S_node 0" "S_node 1" three_nodes]
  obtain g1 where g1: "mutexify (S_node 0) (S_node 1) three_nodes = Inr g1"
    and r1: "\<And>x y. allocated three_nodes x \<Longrightarrow>
      node_is_mutex g1 x y \<longleftrightarrow> node_is_mutex three_nodes x y \<or>
        (x = S_node 0 \<and> node_eq three_nodes y (S_node 1)) \<or>
        (x = S_node 1 \<and> node_eq three_nodes y (S_node 0))"
    by auto
  from mutexify_type_error_iff [of "S_node 0" "S_node 0" three_nodes]
  obtain g2 where g2: "mutexify (S_node 0) (S_node 0) three_nodes = Inr g2"
    and r2: "\<And>x y. allocated three_nodes x \<Longrightarrow>
      node_is_mutex g2 x y \<longleftrightarrow> node_is_mutex three_nodes x y \<or>
        (x = S_node 0 \<and> node_eq three_nodes y (S_node 0)) \<or>
        (x = S_node 0 \<and> node_eq three_nodes y (S_node 0))"
    by auto
  have "node_is_mutex g1 (S_node 0) (S_node 2)" "node_is_mutex g1 (S_node 0) (S_node 1)"
    "node_is_mutex g1 (S_node 1) (S_node 0)" "\<not> node_is_mutex g1 (S_node 1) (S_node 2)"
    using r1 [OF a(1), of "S_node 2"] r1 [OF a(1), of "S_node 1"]
      r1 [OF a(2), of "S_node 0"] r1 [OF a(2), of "S_node 2"] m k by simp_all
  moreover have "node_is_mutex g2 (S_node 0) (S_node 0)" "node_is_mutex g2 (S_node 0) (S_node 2)"
    using r2 [OF a(1), of "S_node 0"] r2 [OF a(1), of "S_node 2"] m by simp_all
  moreover have "map mutex (s_heap g1) = [[2, 1], [0], [0]]"
    using g1 e1 by auto
  moreover have "map mutex (s_heap g2) = [[2, 0], [], [0]]"
    using g2 e2 by auto
  ultimately show ?thesis using g1 g2 a by simp
qed

section \<open>The loops over pairs\<close>


lemma fold_enumerate_shift:
  "fold (\<lambda>(i, n). f (Suc i) n) (enumerate k ys) s = fold (\<lambda>(i, n). f i n) (enumerate (Suc k) ys) s"
  by (induction ys arbitrary: k s) simp_all

lemma for_pairs_Nil: "for_pairs body [] g = g"
  by (simp add: for_pairs_def)

lemma for_pairs_Cons: "for_pairs body (x # xs) g = for_pairs body xs (fold (body x) xs g)"
proof (cases xs)
  case Nil
  then show ?thesis by (simp add: for_pairs_def)
next
  case (Cons y ys)
  have "fold (\<lambda>(i, n1). fold (body n1) (drop (i + 1) (x # xs))) (enumerate (Suc 0) (butlast xs)) s
      = fold (\<lambda>(i, n1). fold (body n1) (drop (i + 1) xs)) (enumerate 0 (butlast xs)) s" for s
    using fold_enumerate_shift [of "\<lambda>i n1. fold (body n1) (drop i xs)" 0 "butlast xs" s, symmetric]
    by simp
  with Cons show ?thesis by (simp add: for_pairs_def)
qed

lemma fold_preserves:
  assumes "\<And>b s. b \<in> set xs \<Longrightarrow> P s \<Longrightarrow> P (f b s)" and "P s"
  shows "P (fold f xs s)"
  using assms by (induction xs arbitrary: s) simp_all

lemma for_pairs_preserves:
  assumes "\<And>a b s. a \<in> set xs \<Longrightarrow> b \<in> set xs \<Longrightarrow> P s \<Longrightarrow> P (body a b s)" and "P s"
  shows "P (for_pairs body xs s)"
  using assms
proof (induction xs arbitrary: s)
  case Nil
  then show ?case by (simp add: for_pairs_Nil)
next
  case (Cons x xs)
  have "P (fold (body x) xs s)"
    by (rule fold_preserves) (use Cons.prems in auto)
  then show ?case
    unfolding for_pairs_Cons by (rule Cons.IH [rotated]) (use Cons.prems in auto)
qed

lemma fold_establishes:
  assumes est: "\<And>b s. b \<in> set xs \<Longrightarrow> P s \<Longrightarrow> Q b (f b s)"
    and keep: "\<And>b c s. c \<in> set xs \<Longrightarrow> P s \<Longrightarrow> Q b s \<Longrightarrow> Q b (f c s)"
    and inv: "\<And>b s. b \<in> set xs \<Longrightarrow> P s \<Longrightarrow> P (f b s)"
    and "P s" and "b \<in> set xs"
  shows "Q b (fold f xs s)"
  using assms
proof (induction xs arbitrary: s)
  case Nil
  then show ?case by simp
next
  case (Cons x xs)
  show ?case
  proof (cases "b \<in> set xs")
    case True
    have "P (f x s)" using Cons.prems(3,4) by simp
    then show ?thesis
      using Cons.IH [of "f x s"] Cons.prems(1,2,3) True by simp
  next
    case False
    with Cons.prems have bx: "b = x" by simp
    have q: "Q b (f x s)" using Cons.prems(1,4) bx by simp
    have p: "P (f x s)" using Cons.prems(3,4) by simp
    have "P (fold f xs (f x s)) \<and> Q b (fold f xs (f x s))"
      by (rule fold_preserves [where P = "\<lambda>s. P s \<and> Q b s"]) (use Cons.prems(2,3) p q in auto)
    then show ?thesis by simp
  qed
qed

lemma for_pairs_establishes:
  assumes est: "\<And>a b s. a \<in> set xs \<Longrightarrow> b \<in> set xs \<Longrightarrow> P s \<Longrightarrow> Q a b (body a b s)"
    and keep: "\<And>a b c d s. c \<in> set xs \<Longrightarrow> d \<in> set xs \<Longrightarrow> P s \<Longrightarrow> Q a b s \<Longrightarrow> Q a b (body c d s)"
    and inv: "\<And>a b s. a \<in> set xs \<Longrightarrow> b \<in> set xs \<Longrightarrow> P s \<Longrightarrow> P (body a b s)"
    and "P s" and "i < j" and "j < length xs"
  shows "Q (xs ! i) (xs ! j) (for_pairs body xs s)"
  using assms
proof (induction xs arbitrary: s i j)
  case Nil
  then show ?case by simp
next
  case (Cons x xs)
  let ?s = "fold (body x) xs s"
  have p: "P ?s"
    by (rule fold_preserves) (use Cons.prems(3,4) in auto)
  show ?case
  proof (cases i)
    case 0
    with Cons.prems have j: "(x # xs) ! j \<in> set xs" by (cases j) auto
    have "Q x ((x # xs) ! j) ?s"
      by (rule fold_establishes [where P = P]) (use Cons.prems(1,2,3,4) j in auto)
    then have "P (for_pairs body xs ?s) \<and> Q x ((x # xs) ! j) (for_pairs body xs ?s)"
      using p by (intro for_pairs_preserves [where P = "\<lambda>s. P s \<and> Q x ((x # xs) ! j) s"])
        (use Cons.prems(2,3) in auto)
    with 0 show ?thesis by (simp add: for_pairs_Cons)
  next
    case (Suc i')
    with Cons.prems obtain j' where j': "j = Suc j'" "i' < j'" "j' < length xs"
      by (cases j) auto
    have "Q (xs ! i') (xs ! j') (for_pairs body xs ?s)"
      by (rule Cons.IH [OF _ _ _ p j'(2,3)]) (use Cons.prems(1,2,3) in auto)
    with Suc j' show ?thesis by (simp add: for_pairs_Cons)
  qed
qed

section \<open>The two mutex analyses\<close>

lemma nth_mutex_add_other: "x \<noteq> a \<Longrightarrow> mutex_add k a b h ! x = h ! x"
  by (simp add: mutex_add_def)

lemma nth_mutexify_in_other: "x \<noteq> a \<Longrightarrow> x \<noteq> b \<Longrightarrow> mutexify_in k a b h ! x = h ! x"
  by (simp add: mutexify_in_def nth_mutex_add_other)

lemma negation_mutex_key:
  "negation_mutex g a b \<longleftrightarrow>
     fst (s_key (s_heap g) a) = fst (s_key (s_heap g) b) \<and>
     snd (s_key (s_heap g) a) \<noteq> snd (s_key (s_heap g) b)"
  by (auto simp: negation_mutex_def s_key_def)

lemma negation_mutex_sym: "negation_mutex g a b \<Longrightarrow> negation_mutex g b a"
  by (auto simp: negation_mutex_key)

lemma negation_mutex_neq: "negation_mutex g a b \<Longrightarrow> a \<noteq> b"
  by (auto simp: negation_mutex_key)

lemma s_mutex_body_fields [simp]:
  "a_heap (s_mutex_body a b g) = a_heap g"
  "s_levels (s_mutex_body a b g) = s_levels g"
  "a_levels (s_mutex_body a b g) = a_levels g"
  "serial (s_mutex_body a b g) = serial g"
  "all_actions (s_mutex_body a b g) = all_actions g"
  "problem (s_mutex_body a b g) = problem g"
  "fs (s_mutex_body a b g) = fs g"
  "length (s_heap (s_mutex_body a b g)) = length (s_heap g)"
  "s_key (s_heap (s_mutex_body a b g)) = s_key (s_heap g)"
  by (simp_all add: s_mutex_body_def length_mutexify_in s_key_mutexify_in)

lemma a_mutex_body_fields [simp]:
  "s_heap (a_mutex_body a b g) = s_heap g"
  "s_levels (a_mutex_body a b g) = s_levels g"
  "a_levels (a_mutex_body a b g) = a_levels g"
  "serial (a_mutex_body a b g) = serial g"
  "all_actions (a_mutex_body a b g) = all_actions g"
  "problem (a_mutex_body a b g) = problem g"
  "fs (a_mutex_body a b g) = fs g"
  "length (a_heap (a_mutex_body a b g)) = length (a_heap g)"
  "a_key (a_heap (a_mutex_body a b g)) = a_key (a_heap g)"
  by (simp_all add: a_mutex_body_def length_mutexify_in a_key_mutexify_in)

lemma s_mutex_body_other:
  "x \<noteq> a \<Longrightarrow> x \<noteq> b \<Longrightarrow> s_heap (s_mutex_body a b g) ! x = s_heap g ! x"
  by (simp add: s_mutex_body_def nth_mutexify_in_other)

lemma a_mutex_body_other:
  "x \<noteq> a \<Longrightarrow> x \<noteq> b \<Longrightarrow> a_heap (a_mutex_body a b g) ! x = a_heap g ! x"
  by (simp add: a_mutex_body_def nth_mutexify_in_other)

lemma s_mutex_body_mono:
  "is_mutex s_key (s_heap g) x y \<Longrightarrow> is_mutex s_key (s_heap (s_mutex_body a b g)) x y"
  by (simp add: s_mutex_body_def is_mutex_mutexify_in_mono s_key_mutex_add)

lemma a_mutex_body_mono:
  "is_mutex a_key (a_heap g) x y \<Longrightarrow> is_mutex a_key (a_heap (a_mutex_body a b g)) x y"
  by (simp add: a_mutex_body_def is_mutex_mutexify_in_mono a_key_mutex_add)

lemma s_mutex_body_iff:
  assumes "x < length (s_heap g)"
  shows "is_mutex s_key (s_heap (s_mutex_body a b g)) x y \<longleftrightarrow>
     is_mutex s_key (s_heap g) x y \<or>
     ((negation_mutex g a b \<or> inconsistent_support_mutex g a b) \<and>
      ((x = a \<and> s_key (s_heap g) y = s_key (s_heap g) b) \<or>
       (x = b \<and> s_key (s_heap g) y = s_key (s_heap g) a)))"
  using assms is_mutex_mutexify_in_iff [of s_key x "s_heap g" a b y]
  by (auto simp: s_mutex_body_def s_key_mutex_add)

lemma a_mutex_body_iff:
  assumes "x < length (a_heap g)"
  shows "is_mutex a_key (a_heap (a_mutex_body a b g)) x y \<longleftrightarrow>
     is_mutex a_key (a_heap g) x y \<or>
     ((serialize_actions g a b \<or> inconsistent_effects_mutex g a b \<or>
       interference_mutex g a b \<or> competing_needs_mutex g a b) \<and>
      ((x = a \<and> a_key (a_heap g) y = a_key (a_heap g) b) \<or>
       (x = b \<and> a_key (a_heap g) y = a_key (a_heap g) a)))"
  using assms is_mutex_mutexify_in_iff [of a_key x "a_heap g" a b y]
  by (auto simp: a_mutex_body_def a_key_mutex_add)

lemma set_mutex_mutex_add:
  "set (mutex (mutex_add k a b h ! x)) \<subseteq> insert b (set (mutex (h ! x)))"
proof (cases "x = a \<and> a < length h")
  case True
  then show ?thesis using set_py_add [of "k h" "mutex (h ! a)" b] by (simp add: mutex_add_def)
next
  case False
  then have "mutex_add k a b h ! x = h ! x"
    by (auto simp: mutex_add_def list_update_beyond)
  then show ?thesis by auto
qed

lemma set_mutex_mutexify_in:
  "set (mutex (mutexify_in k a b h ! x)) \<subseteq> {a, b} \<union> set (mutex (h ! x))"
  using set_mutex_mutex_add [of k b a "mutex_add k a b h" x] set_mutex_mutex_add [of k a b h x]
  by (auto simp: mutexify_in_def)

lemma s_mutex_body_mutex_subset:
  "set (mutex (s_heap (s_mutex_body a b g) ! x)) \<subseteq> {a, b} \<union> set (mutex (s_heap g ! x))"
  using set_mutex_mutexify_in [of s_key a b "s_heap g" x] by (auto simp: s_mutex_body_def)

lemma s_mutex_body_parents:
  "parents (s_heap (s_mutex_body a b g) ! x) = parents (s_heap g ! x)"
  "children (s_heap (s_mutex_body a b g) ! x) = children (s_heap g ! x)"
  by (simp_all add: s_mutex_body_def nth_mutexify_in_parents nth_mutexify_in_children)

lemma update_s_mutex_fields:
  "a_heap (update_s_mutex g xs) = a_heap g \<and>
   s_levels (update_s_mutex g xs) = s_levels g \<and>
   a_levels (update_s_mutex g xs) = a_levels g \<and>
   serial (update_s_mutex g xs) = serial g \<and>
   all_actions (update_s_mutex g xs) = all_actions g \<and>
   problem (update_s_mutex g xs) = problem g \<and>
   fs (update_s_mutex g xs) = fs g \<and>
   length (s_heap (update_s_mutex g xs)) = length (s_heap g) \<and>
   s_key (s_heap (update_s_mutex g xs)) = s_key (s_heap g)"
  unfolding update_s_mutex_def
  by (rule for_pairs_preserves) simp_all

lemma update_s_mutex_other:
  assumes "x \<notin> set xs"
  shows "s_heap (update_s_mutex g xs) ! x = s_heap g ! x"
  unfolding update_s_mutex_def
proof (rule for_pairs_preserves [where P = "\<lambda>s. s_heap s ! x = s_heap g ! x"])
  fix a b and s :: planning_graph
  assume "a \<in> set xs" "b \<in> set xs" and s: "s_heap s ! x = s_heap g ! x"
  with assms have "x \<noteq> a" "x \<noteq> b" by auto
  then show "s_heap (s_mutex_body a b s) ! x = s_heap g ! x"
    using s by (simp add: s_mutex_body_other)
qed simp

lemma update_s_mutex_parents:
  "parents (s_heap (update_s_mutex g xs) ! x) = parents (s_heap g ! x) \<and>
   children (s_heap (update_s_mutex g xs) ! x) = children (s_heap g ! x)"
  unfolding update_s_mutex_def
  by (rule for_pairs_preserves) (simp_all add: s_mutex_body_parents)

lemma update_s_mutex_mutex_subset:
  "set (mutex (s_heap (update_s_mutex g xs) ! x)) \<subseteq> set xs \<union> set (mutex (s_heap g ! x))"
  unfolding update_s_mutex_def
proof (rule for_pairs_preserves)
  fix a b and s :: planning_graph
  assume "a \<in> set xs" "b \<in> set xs"
    and "set (mutex (s_heap s ! x)) \<subseteq> set xs \<union> set (mutex (s_heap g ! x))"
  then show "set (mutex (s_heap (s_mutex_body a b s) ! x)) \<subseteq> set xs \<union> set (mutex (s_heap g ! x))"
    using s_mutex_body_mutex_subset [of a b s x] by auto
qed simp

lemma update_s_mutex_mono:
  assumes "is_mutex s_key (s_heap g) x y"
  shows "is_mutex s_key (s_heap (update_s_mutex g xs)) x y"
  unfolding update_s_mutex_def
  by (rule for_pairs_preserves) (use assms in \<open>auto simp: s_mutex_body_mono\<close>)

lemma update_s_mutex_negation_ordered:
  assumes "set xs \<subseteq> {..<length (s_heap g)}" and "i < j" and "j < length xs"
  shows "negation_mutex g (xs ! i) (xs ! j) \<longrightarrow>
     is_mutex s_key (s_heap (update_s_mutex g xs)) (xs ! i) (xs ! j) \<and>
     is_mutex s_key (s_heap (update_s_mutex g xs)) (xs ! j) (xs ! i)"
  unfolding update_s_mutex_def
proof (rule for_pairs_establishes
    [where P = "\<lambda>s. length (s_heap s) = length (s_heap g) \<and> s_key (s_heap s) = s_key (s_heap g)"
       and Q = "\<lambda>a b s. negation_mutex g a b \<longrightarrow>
          is_mutex s_key (s_heap s) a b \<and> is_mutex s_key (s_heap s) b a", OF _ _ _ _ assms(2,3)])
  fix a b and s :: planning_graph
  assume ab: "a \<in> set xs" "b \<in> set xs"
    and P: "length (s_heap s) = length (s_heap g) \<and> s_key (s_heap s) = s_key (s_heap g)"
  then have r: "a < length (s_heap s)" "b < length (s_heap s)" using assms(1) by auto
  have n: "negation_mutex s a b = negation_mutex g a b"
    using P by (simp add: negation_mutex_key)
  show "negation_mutex g a b \<longrightarrow>
     is_mutex s_key (s_heap (s_mutex_body a b s)) a b \<and> is_mutex s_key (s_heap (s_mutex_body a b s)) b a"
    using r n by (simp add: s_mutex_body_iff)
qed (simp_all add: s_mutex_body_mono)

lemma update_s_mutex_negation:
  assumes "set xs \<subseteq> {..<length (s_heap g)}" and "n1 \<in> set xs" and "n2 \<in> set xs"
    and "negation_mutex g n1 n2"
  shows "is_mutex s_key (s_heap (update_s_mutex g xs)) n1 n2"
proof -
  from assms(2,3) obtain i j where ij: "i < length xs" "xs ! i = n1" "j < length xs" "xs ! j = n2"
    by (auto simp: in_set_conv_nth)
  with assms(4) have "i \<noteq> j" using negation_mutex_neq by auto
  then consider "i < j" | "j < i" by linarith
  then show ?thesis
  proof cases
    case 1
    then show ?thesis
      using update_s_mutex_negation_ordered [OF assms(1) 1 ij(3)] ij assms(4) by simp
  next
    case 2
    then show ?thesis
      using update_s_mutex_negation_ordered [OF assms(1) 2 ij(1)] ij negation_mutex_sym [OF assms(4)]
      by simp
  qed
qed

lemma update_s_mutex_sym:
  assumes "set xs \<subseteq> {..<length (s_heap g)}" and "inj_on (s_key (s_heap g)) (set xs)"
    and "\<forall>x\<in>set xs. \<forall>y\<in>set xs. is_mutex s_key (s_heap g) x y = is_mutex s_key (s_heap g) y x"
  shows "\<forall>x\<in>set xs. \<forall>y\<in>set xs.
     is_mutex s_key (s_heap (update_s_mutex g xs)) x y = is_mutex s_key (s_heap (update_s_mutex g xs)) y x"
proof -
  let ?P = "\<lambda>s :: planning_graph. length (s_heap s) = length (s_heap g) \<and> s_key (s_heap s) = s_key (s_heap g) \<and>
     (\<forall>x\<in>set xs. \<forall>y\<in>set xs. is_mutex s_key (s_heap s) x y = is_mutex s_key (s_heap s) y x)"
  have "?P (for_pairs s_mutex_body xs g)"
  proof (rule for_pairs_preserves [where P = ?P])
    fix a b and s :: planning_graph
    assume ab: "a \<in> set xs" "b \<in> set xs" and P: "?P s"
    have inj: "x \<in> set xs \<Longrightarrow> y \<in> set xs \<Longrightarrow> s_key (s_heap s) x = s_key (s_heap s) y \<longleftrightarrow> x = y" for x y
      using assms(2) P by (auto simp: inj_on_def)
    have r: "x \<in> set xs \<Longrightarrow> x < length (s_heap s)" for x using assms(1) P by auto
    have step: "is_mutex s_key (s_heap (s_mutex_body a b s)) x y \<longleftrightarrow>
        is_mutex s_key (s_heap s) x y \<or>
        ((negation_mutex s a b \<or> inconsistent_support_mutex s a b) \<and>
         ((x = a \<and> y = b) \<or> (x = b \<and> y = a)))"
      if "x \<in> set xs" "y \<in> set xs" for x y
      using s_mutex_body_iff [of x s a b y] r [OF that(1)] inj [OF that(2) ab(1)] inj [OF that(2) ab(2)]
      by simp
    have "\<forall>x\<in>set xs. \<forall>y\<in>set xs.
        is_mutex s_key (s_heap (s_mutex_body a b s)) x y = is_mutex s_key (s_heap (s_mutex_body a b s)) y x"
      using P by (auto simp: step)
    then show "?P (s_mutex_body a b s)" using P by simp
  qed (use assms(3) in simp)
  then show ?thesis by (simp add: update_s_mutex_def)
qed

lemma nth_mutex_add_field:
  assumes "\<And>n m. f (n\<lparr>mutex := m\<rparr>) = f n"
  shows "f (mutex_add k a b h ! x) = f (h ! x)"
  unfolding mutex_add_def
  by (rule nth_update_field [where g = "\<lambda>n. n\<lparr>mutex := py_add (k h) (mutex (h ! a)) b\<rparr>"])
     (rule assms)

lemma nth_mutexify_in_field:
  assumes "\<And>n m. f (n\<lparr>mutex := m\<rparr>) = f n"
  shows "f (mutexify_in k a b h ! x) = f (h ! x)"
  by (simp add: mutexify_in_def nth_mutex_add_field [where f = f, OF assms])

lemma a_mutex_body_node_fields:
  "action (a_heap (a_mutex_body a b g) ! x) = action (a_heap g ! x)"
  "prenodes (a_heap (a_mutex_body a b g) ! x) = prenodes (a_heap g ! x)"
  "effnodes (a_heap (a_mutex_body a b g) ! x) = effnodes (a_heap g ! x)"
  "is_persistent (a_heap (a_mutex_body a b g) ! x) = is_persistent (a_heap g ! x)"
  by (simp_all add: a_mutex_body_def nth_mutexify_in_field)

lemma a_mutex_body_mutex_subset:
  "set (mutex (a_heap (a_mutex_body a b g) ! x)) \<subseteq> {a, b} \<union> set (mutex (a_heap g ! x))"
  using set_mutex_mutexify_in [of a_key a b "a_heap g" x] by (auto simp: a_mutex_body_def)

lemma a_mutex_body_parents:
  "parents (a_heap (a_mutex_body a b g) ! x) = parents (a_heap g ! x)"
  "children (a_heap (a_mutex_body a b g) ! x) = children (a_heap g ! x)"
  by (simp_all add: a_mutex_body_def nth_mutexify_in_parents nth_mutexify_in_children)

lemma update_a_mutex_fields:
  "s_heap (update_a_mutex g xs) = s_heap g \<and>
   s_levels (update_a_mutex g xs) = s_levels g \<and>
   a_levels (update_a_mutex g xs) = a_levels g \<and>
   serial (update_a_mutex g xs) = serial g \<and>
   all_actions (update_a_mutex g xs) = all_actions g \<and>
   problem (update_a_mutex g xs) = problem g \<and>
   fs (update_a_mutex g xs) = fs g \<and>
   length (a_heap (update_a_mutex g xs)) = length (a_heap g) \<and>
   a_key (a_heap (update_a_mutex g xs)) = a_key (a_heap g)"
  unfolding update_a_mutex_def
  by (rule for_pairs_preserves) simp_all

lemma update_a_mutex_other:
  assumes "x \<notin> set xs"
  shows "a_heap (update_a_mutex g xs) ! x = a_heap g ! x"
  unfolding update_a_mutex_def
proof (rule for_pairs_preserves [where P = "\<lambda>s. a_heap s ! x = a_heap g ! x"])
  fix a b and s :: planning_graph
  assume "a \<in> set xs" "b \<in> set xs" and s: "a_heap s ! x = a_heap g ! x"
  with assms have "x \<noteq> a" "x \<noteq> b" by auto
  then show "a_heap (a_mutex_body a b s) ! x = a_heap g ! x"
    using s by (simp add: a_mutex_body_other)
qed simp

lemma update_a_mutex_parents:
  "parents (a_heap (update_a_mutex g xs) ! x) = parents (a_heap g ! x) \<and>
   children (a_heap (update_a_mutex g xs) ! x) = children (a_heap g ! x)"
  unfolding update_a_mutex_def
  by (rule for_pairs_preserves) (simp_all add: a_mutex_body_parents)

lemma update_a_mutex_mutex_subset:
  "set (mutex (a_heap (update_a_mutex g xs) ! x)) \<subseteq> set xs \<union> set (mutex (a_heap g ! x))"
  unfolding update_a_mutex_def
proof (rule for_pairs_preserves)
  fix a b and s :: planning_graph
  assume "a \<in> set xs" "b \<in> set xs"
    and "set (mutex (a_heap s ! x)) \<subseteq> set xs \<union> set (mutex (a_heap g ! x))"
  then show "set (mutex (a_heap (a_mutex_body a b s) ! x)) \<subseteq> set xs \<union> set (mutex (a_heap g ! x))"
    using a_mutex_body_mutex_subset [of a b s x] by auto
qed simp

lemma update_a_mutex_mono:
  assumes "is_mutex a_key (a_heap g) x y"
  shows "is_mutex a_key (a_heap (update_a_mutex g xs)) x y"
  unfolding update_a_mutex_def
  by (rule for_pairs_preserves) (use assms in \<open>auto simp: a_mutex_body_mono\<close>)

lemma update_a_mutex_sym:
  assumes "set xs \<subseteq> {..<length (a_heap g)}" and "inj_on (a_key (a_heap g)) (set xs)"
    and "\<forall>x\<in>set xs. \<forall>y\<in>set xs. is_mutex a_key (a_heap g) x y = is_mutex a_key (a_heap g) y x"
  shows "\<forall>x\<in>set xs. \<forall>y\<in>set xs.
     is_mutex a_key (a_heap (update_a_mutex g xs)) x y = is_mutex a_key (a_heap (update_a_mutex g xs)) y x"
proof -
  let ?P = "\<lambda>s :: planning_graph. length (a_heap s) = length (a_heap g) \<and> a_key (a_heap s) = a_key (a_heap g) \<and>
     (\<forall>x\<in>set xs. \<forall>y\<in>set xs. is_mutex a_key (a_heap s) x y = is_mutex a_key (a_heap s) y x)"
  have "?P (for_pairs a_mutex_body xs g)"
  proof (rule for_pairs_preserves [where P = ?P])
    fix a b and s :: planning_graph
    assume ab: "a \<in> set xs" "b \<in> set xs" and P: "?P s"
    have inj: "x \<in> set xs \<Longrightarrow> y \<in> set xs \<Longrightarrow> a_key (a_heap s) x = a_key (a_heap s) y \<longleftrightarrow> x = y" for x y
      using assms(2) P by (auto simp: inj_on_def)
    have r: "x \<in> set xs \<Longrightarrow> x < length (a_heap s)" for x using assms(1) P by auto
    have step: "is_mutex a_key (a_heap (a_mutex_body a b s)) x y \<longleftrightarrow>
        is_mutex a_key (a_heap s) x y \<or>
        ((serialize_actions s a b \<or> inconsistent_effects_mutex s a b \<or>
          interference_mutex s a b \<or> competing_needs_mutex s a b) \<and>
         ((x = a \<and> y = b) \<or> (x = b \<and> y = a)))"
      if "x \<in> set xs" "y \<in> set xs" for x y
      using a_mutex_body_iff [of x s a b y] r [OF that(1)] inj [OF that(2) ab(1)] inj [OF that(2) ab(2)]
      by simp
    have "\<forall>x\<in>set xs. \<forall>y\<in>set xs.
        is_mutex a_key (a_heap (a_mutex_body a b s)) x y = is_mutex a_key (a_heap (a_mutex_body a b s)) y x"
      using P by (auto simp: step)
    then show "?P (a_mutex_body a b s)" using P by simp
  qed (use assms(3) in simp)
  then show ?thesis by (simp add: update_a_mutex_def)
qed


lemma update_a_mutex_node_fields:
  "action (a_heap (update_a_mutex g xs) ! x) = action (a_heap g ! x) \<and>
   prenodes (a_heap (update_a_mutex g xs) ! x) = prenodes (a_heap g ! x) \<and>
   effnodes (a_heap (update_a_mutex g xs) ! x) = effnodes (a_heap g ! x) \<and>
   is_persistent (a_heap (update_a_mutex g xs) ! x) = is_persistent (a_heap g ! x)"
  unfolding update_a_mutex_def
  by (rule for_pairs_preserves) (simp_all add: a_mutex_body_node_fields)

lemma serialize_actions_iff:
  "serialize_actions g a b \<longleftrightarrow>
     serial g \<and> \<not> is_persistent (a_heap g ! a) \<and> \<not> is_persistent (a_heap g ! b)"
  by (simp add: serialize_actions_def)

lemma update_a_mutex_serial_ordered:
  assumes "set xs \<subseteq> {..<length (a_heap g)}" and "i < j" and "j < length xs"
  shows "serialize_actions g (xs ! i) (xs ! j) \<longrightarrow>
     is_mutex a_key (a_heap (update_a_mutex g xs)) (xs ! i) (xs ! j) \<and>
     is_mutex a_key (a_heap (update_a_mutex g xs)) (xs ! j) (xs ! i)"
  unfolding update_a_mutex_def
proof (rule for_pairs_establishes
    [where P = "\<lambda>s. length (a_heap s) = length (a_heap g) \<and> serial s = serial g \<and>
          (\<forall>x. is_persistent (a_heap s ! x) = is_persistent (a_heap g ! x))"
       and Q = "\<lambda>a b s. serialize_actions g a b \<longrightarrow>
          is_mutex a_key (a_heap s) a b \<and> is_mutex a_key (a_heap s) b a", OF _ _ _ _ assms(2,3)])
  fix a b and s :: planning_graph
  assume ab: "a \<in> set xs" "b \<in> set xs"
    and P: "length (a_heap s) = length (a_heap g) \<and> serial s = serial g \<and>
          (\<forall>x. is_persistent (a_heap s ! x) = is_persistent (a_heap g ! x))"
  then have r: "a < length (a_heap s)" "b < length (a_heap s)" using assms(1) by auto
  have n: "serialize_actions s a b = serialize_actions g a b"
    using P by (simp add: serialize_actions_iff)
  show "serialize_actions g a b \<longrightarrow>
     is_mutex a_key (a_heap (a_mutex_body a b s)) a b \<and> is_mutex a_key (a_heap (a_mutex_body a b s)) b a"
    using r n by (simp add: a_mutex_body_iff)
qed (simp_all add: a_mutex_body_mono a_mutex_body_node_fields)

lemma update_a_mutex_serial:
  assumes "set xs \<subseteq> {..<length (a_heap g)}" and "n1 \<in> set xs" and "n2 \<in> set xs"
    and "n1 \<noteq> n2" and "serialize_actions g n1 n2"
  shows "is_mutex a_key (a_heap (update_a_mutex g xs)) n1 n2"
proof -
  from assms(2,3) obtain i j where ij: "i < length xs" "xs ! i = n1" "j < length xs" "xs ! j = n2"
    by (auto simp: in_set_conv_nth)
  with assms(4) have "i \<noteq> j" by auto
  then consider "i < j" | "j < i" by linarith
  then show ?thesis
  proof cases
    case 1
    then show ?thesis
      using update_a_mutex_serial_ordered [OF assms(1) 1 ij(3)] ij assms(5) by simp
  next
    case 2
    have "serialize_actions g n2 n1" using assms(5) by (auto simp: serialize_actions_iff)
    then show ?thesis
      using update_a_mutex_serial_ordered [OF assms(1) 2 ij(1)] ij by simp
  qed
qed

section \<open>Inconsistent support without supporting actions\<close>







end
